theory Spec2Isabelle
  imports Complex_Main "HOL-Library.Log_Nat"
begin

section \<open>The attendance engine of \<^verbatim>\<open>db.js\<close> (class \<^verbatim>\<open>HaderDB\<close>)\<close>

text \<open>
  A shallow embedding of the attendance write path (\<^verbatim>\<open>recordAttendance\<close>,
  \<^verbatim>\<open>calculateAttendanceStatus\<close>, \<^verbatim>\<open>getTodayAttendance\<close>, \<^verbatim>\<open>markAbsent\<close>) and of the
  daily statistics (\<^verbatim>\<open>getTodayStats\<close>) of \<^verbatim>\<open>src/db.js\<close>, together with the generic
  store operations they call (\<^verbatim>\<open>put\<close>, \<^verbatim>\<open>get\<close>, \<^verbatim>\<open>getAll\<close>, \<^verbatim>\<open>logAudit\<close>,
  \<^verbatim>\<open>updateStudent\<close>).

  Modelling decisions:
  \<^item> The object stores are lists inside one state record \<open>db\<close>; every operation takes the
    state and returns the new one. A lookup by key returns the record stored under that
    key, an index query for a string, a number or an array of them returns the records
    whose indexed fields equal the query, in primary-key order, and a \<^verbatim>\<open>put\<close> never
    fails. A boolean is not a key of the storage engine; the one query that passes one is
    modelled with \<open>getCurrentSessionId\<close>.
  \<^item> \<^verbatim>\<open>new Date()\<close> is a parameter \<open>now\<close>; the clock reads made during one call are
    the same instant.
  \<^item> An exception (\<^verbatim>\<open>throw new Error(...)\<close>) and a \<^verbatim>\<open>{success: false, message}\<close>
    result are values \<open>Inl e\<close> of an error type; the state comes back beside the result,
    as it is when the call ends.
  \<^item> JavaScript numbers are IEEE doubles. A double is the rational it denotes, and each
    division and multiplication rounds its exact result to the nearest double
    (\<open>double_round\<close>).
\<close>

subsection \<open>JavaScript numbers\<close>

text \<open>
  \<open>binade q\<close> is, for \<open>q > 0\<close>, the exponent \<open>e\<close> with \<open>2^e \<le> q < 2^(e+1)\<close>;
  \<open>floorlog 2 n\<close> is the bit length of \<open>n\<close>.
\<close>

definition binade :: "rat \<Rightarrow> int" where
  "binade q =
     (if 1 \<le> q then int (floorlog 2 (nat \<lfloor>q\<rfloor>)) - 1
      else - int (floorlog 2 (nat (\<lceil>1 / q\<rceil> - 1))))"

definition round_half_even :: "rat \<Rightarrow> int" where
  "round_half_even x =
     (let f = \<lfloor>x\<rfloor>; r = x - of_int f
      in if r < 1 / 2 then f
         else if 1 / 2 < r then f + 1
         else if even f then f else f + 1)"

text \<open>
  Rounding to a 53-bit significand, ties to even. Overflow and subnormal numbers are out
  of the model: the values rounded here are quotients and products of integers below
  \<open>2^53\<close>.
\<close>

definition double_round :: "rat \<Rightarrow> rat" where
  "double_round q =
     (if q = 0 then 0
      else let a = \<bar>q\<bar>;
               e = binade a - 52;
               m = round_half_even (a / 2 powi e)
           in sgn q * of_int m * 2 powi e)"

text \<open>\<^verbatim>\<open>a / b\<close>, \<^verbatim>\<open>a * b\<close> and \<^verbatim>\<open>Math.round(x)\<close> (the integer \<open>\<lfloor>x + 1/2\<rfloor>\<close>).\<close>

definition js_div :: "rat \<Rightarrow> rat \<Rightarrow> rat" where
  "js_div a b = double_round (a / b)"


definition Math_round :: "rat \<Rightarrow> int" where
  "Math_round x = \<lfloor>x + 1 / 2\<rfloor>"

subsection \<open>Dates\<close>

text \<open>
  A \<^verbatim>\<open>Date\<close> is its time value, the milliseconds since the epoch, together with the
  host's local time zone. The zone is what the \<^verbatim>\<open>Date\<close> methods read from it:
  \<open>tzOffsetMs\<close> is the offset in force at the instant itself (local time minus UTC, in
  milliseconds), and \<open>tzOffsetAt l\<close> is the offset in force at the local time value
  \<open>l\<close>. The two differ across a daylight-saving transition; in a zone with a fixed
  offset \<open>tzOffsetAt\<close> is constant.
\<close>

record jsdate =
  epochMs :: int
  tzOffsetMs :: int
  tzOffsetAt :: "int \<Rightarrow> int"

definition msPerDay :: int where
  "msPerDay = 86400000"

text \<open>
  \<^verbatim>\<open>d.toISOString().split('T')[0]\<close>: the UTC calendar date. The \<^verbatim>\<open>YYYY-MM-DD\<close> string
  is represented by the number of the UTC day, and \<^verbatim>\<open>d.toISOString()\<close> by the time value
  itself; both strings order and compare as these numbers do.
\<close>

definition toISODate :: "jsdate \<Rightarrow> int" where
  "toISODate d = epochMs d div msPerDay"

definition toISOString :: "jsdate \<Rightarrow> int" where
  "toISOString d = epochMs d"

text \<open>The local calendar date of \<open>d\<close>, as the number of the local day.\<close>

definition localDate :: "jsdate \<Rightarrow> int" where
  "localDate d = (epochMs d + tzOffsetMs d) div msPerDay"

text \<open>
  \<^verbatim>\<open>w = new Date(d); w.setHours(h, m, 0, 0)\<close>: the time value of \<open>h:m:00.000\<close> local time
  on the local calendar day of \<open>d\<close>. The local time value is built from the local day
  and the given time of day, and goes back to UTC with the offset in force at that local
  time.
\<close>

definition setHours :: "jsdate \<Rightarrow> int \<Rightarrow> int \<Rightarrow> int" where
  "setHours d h m =
     (let localTime = localDate d * msPerDay + h * 3600000 + m * 60000
      in localTime - tzOffsetAt d localTime)"

subsection \<open>Status classification\<close>

datatype status = Present | Late | Absent

text \<open>
  \<^verbatim>\<open>calculateAttendanceStatus(currentTime, workStartTime, lateThresholdMin)\<close>. The
  \<^verbatim>\<open>HH:mm\<close> string is held as the pair of numbers that
  \<^verbatim>\<open>workStartTime.split(':').map(Number)\<close> yields. The result is the pair
  \<open>(actualStatus, calculatedLateMinutes)\<close>.
\<close>

definition calculateAttendanceStatus :: "jsdate \<Rightarrow> int \<times> int \<Rightarrow> int \<Rightarrow> status \<times> int" where
  "calculateAttendanceStatus currentTime workStartTime lateThresholdMin =
     (let (workHour, workMinute) = workStartTime;
          workStart = setHours currentTime workHour workMinute;
          diffMinutes = max 0 (js_div (of_int (epochMs currentTime - workStart)) (1000 * 60))
      in if diffMinutes > of_int lateThresholdMin
         then (Late, Math_round diffMinutes)
         else (Present, 0))"

subsection \<open>The object stores\<close>

text \<open>
  The fields are those the attendance engine reads or writes. A field that a record may
  lack (\<^verbatim>\<open>undefined\<close>) has an option type. \<open>student_id\<close> and \<open>att_id\<close> are the
  \<^verbatim>\<open>id\<close> key paths of the two stores; an attendance record has no \<^verbatim>\<open>id\<close> until the
  store's key generator gives it one.
\<close>

record student =
  student_id :: string
  name :: string
  grade :: string
  className :: string
  guardianPhone :: string
  lateDays :: "int option"
  lateMinutesTotal :: "int option"
  student_createdAt :: "int option"
  student_updatedAt :: "int option"

record attendance_record =
  att_id :: "nat option"
  studentId :: string
  dateISO :: int
  timeISO :: int
  status :: status
  lateMinutes :: int
  sessionId :: "nat option"
  isRepeat :: "bool option"
  reason :: "string option"
  markedBy :: "string option"
  isManual :: "bool option"
  createdAt :: "int option"
  updatedAt :: "int option"

record session =
  session_id :: nat
  active :: bool

record settings_record =
  workStartHHmm :: "(int \<times> int) option"
  lateThresholdMin :: "int option"

datatype payload = StudentJSON student | AttendanceJSON attendance_record

record audit_record =
  user :: string
  action :: string
  entity :: string
  before :: "payload option"
  after :: "payload option"
  ts :: int

text \<open>
  What the storage engine does with an index query whose value is a boolean. A boolean is
  not a valid key: an engine that validates the query rejects it with a \<^verbatim>\<open>DataError\<close>;
  an engine that does not validate it looks the value up and finds nothing, because a
  record whose indexed field is a boolean has no entry in the index.
\<close>

datatype engine = ValidatesKeys | AcceptsAnyKey

text \<open>
  \<open>attendance\<close> is in key order; \<open>attendanceKeyGen\<close> is the next key of the
  auto-increment generator of the attendance store (1 in a fresh database).
\<close>

record db =
  students :: "student list"
  attendance :: "attendance_record list"
  attendanceKeyGen :: nat
  sessions :: "session list"
  settings :: "settings_record option"
  audit :: "audit_record list"
  engine :: engine

text \<open>
  The failures of the attendance operations: \<open>StudentNotFound\<close> is the \<^verbatim>\<open>Error\<close>
  thrown when \<^verbatim>\<open>getStudent\<close> finds nothing, \<open>DuplicateRecordConflict\<close> is the
  \<^verbatim>\<open>{success: false, message}\<close> result of \<^verbatim>\<open>markAbsent\<close> (the messages are Arabic
  text in the source), and \<open>DataError\<close> is the exception of the storage engine for a
  query that is not a valid key.
\<close>

datatype error = StudentNotFound | DuplicateRecordConflict | DataError

subsection \<open>Generic store operations\<close>

text \<open>
  \<^verbatim>\<open>put(storeName, data)\<close> stamps \<open>data\<close> (\<^verbatim>\<open>createdAt\<close> when missing,
  \<^verbatim>\<open>updatedAt\<close> always), stores it under its key and returns the key. The caller's object
  is stamped too, so the stamped record is returned with the key. A record with a key
  replaces the one stored under that key; a record without one gets the next generated key.
\<close>

definition put_attendance ::
  "db \<Rightarrow> jsdate \<Rightarrow> attendance_record \<Rightarrow> nat \<times> attendance_record \<times> db" where
  "put_attendance d now data =
     (let data' = data\<lparr>createdAt := (case createdAt data of None \<Rightarrow> Some (toISOString now)
                                                           | Some c \<Rightarrow> Some c),
                        updatedAt := Some (toISOString now)\<rparr>
      in case att_id data' of
           None \<Rightarrow>
             (let k = attendanceKeyGen d
              in (k, data',
                  d\<lparr>attendance := attendance d @ [data'\<lparr>att_id := Some k\<rparr>],
                    attendanceKeyGen := Suc k\<rparr>))
         | Some k \<Rightarrow>
             (k, data',
              d\<lparr>attendance :=
                   (if list_ex (\<lambda>r. att_id r = Some k) (attendance d)
                    then map (\<lambda>r. if att_id r = Some k then data' else r) (attendance d)
                    else filter (\<lambda>r. case att_id r of None \<Rightarrow> False | Some j \<Rightarrow> j < k)
                           (attendance d)
                         @ [data']
                         @ filter (\<lambda>r. case att_id r of None \<Rightarrow> True | Some j \<Rightarrow> \<not> j < k)
                             (attendance d)),
                 attendanceKeyGen := max (attendanceKeyGen d) (Suc k)\<rparr>))"

text \<open>
  The students store is keyed by \<open>student_id\<close>. The operations modelled here use only
  lookup by key and the number of students, so a new student goes to the end of the list.
\<close>

definition put_students :: "db \<Rightarrow> jsdate \<Rightarrow> student \<Rightarrow> db" where
  "put_students d now data =
     (let data' = data\<lparr>student_createdAt :=
                          (case student_createdAt data of None \<Rightarrow> Some (toISOString now)
                                                       | Some c \<Rightarrow> Some c),
                        student_updatedAt := Some (toISOString now)\<rparr>
      in d\<lparr>students :=
             (if list_ex (\<lambda>s. student_id s = student_id data') (students d)
              then map (\<lambda>s. if student_id s = student_id data' then data' else s) (students d)
              else students d @ [data'])\<rparr>)"

definition logAudit ::
  "db \<Rightarrow> jsdate \<Rightarrow> string \<Rightarrow> string \<Rightarrow> string \<Rightarrow> payload option \<Rightarrow> payload option \<Rightarrow> db" where
  "logAudit d now usr act ent bef aft =
     d\<lparr>audit := audit d @
        [\<lparr>user = usr, action = act, entity = ent, before = bef, after = aft,
          ts = toISOString now\<rparr>]\<rparr>"

subsection \<open>Students and settings\<close>

definition getStudent :: "db \<Rightarrow> string \<Rightarrow> student option" where
  "getStudent d sid = find (\<lambda>s. student_id s = sid) (students d)"


text \<open>
  \<^verbatim>\<open>updateStudent(id, updates)\<close> with the \<^verbatim>\<open>updates\<close> object that \<^verbatim>\<open>recordAttendance\<close>
  passes, \<^verbatim>\<open>{lateDays, lateMinutesTotal}\<close>; it carries no \<^verbatim>\<open>id\<close>, so the branches for
  a changed id are not taken.
\<close>

definition updateStudent :: "db \<Rightarrow> jsdate \<Rightarrow> string \<Rightarrow> int \<times> int \<Rightarrow> (error + unit) \<times> db" where
  "updateStudent d now sid updates =
     (case getStudent d sid of
        None \<Rightarrow> (Inl StudentNotFound, d)
      | Some existing \<Rightarrow>
          (let updated = existing\<lparr>lateDays := Some (fst updates),
                                  lateMinutesTotal := Some (snd updates)\<rparr>;
               d1 = logAudit d now ''system'' ''UPDATE_STUDENT'' ''students''
                      (Some (StudentJSON existing)) (Some (StudentJSON updated))
           in (Inr (), put_students d1 now updated)))"

definition getDefaultSettings :: settings_record where
  "getDefaultSettings = \<lparr>workStartHHmm = Some (7, 0), lateThresholdMin = Some 15\<rparr>"

definition getSettings :: "db \<Rightarrow> settings_record" where
  "getSettings d = (case settings d of None \<Rightarrow> getDefaultSettings | Some s \<Rightarrow> s)"

text \<open>
  \<^verbatim>\<open>settings.workStartHHmm || '07:00'\<close> and \<^verbatim>\<open>settings.lateThresholdMin || 15\<close>: a
  missing value and the number 0 are falsy.
\<close>

definition workStartTime :: "settings_record \<Rightarrow> int \<times> int" where
  "workStartTime cfg = (case workStartHHmm cfg of None \<Rightarrow> (7, 0) | Some w \<Rightarrow> w)"

definition lateThreshold :: "settings_record \<Rightarrow> int" where
  "lateThreshold cfg =
     (case lateThresholdMin cfg of None \<Rightarrow> 15 | Some t \<Rightarrow> if t = 0 then 15 else t)"

text \<open>
  \<^verbatim>\<open>getAll('sessions', 'active', true)\<close>: the query value is a boolean. On an engine that
  validates keys the request throws; otherwise it yields the empty list whatever sessions
  are stored, since no session has an entry in the \<^verbatim>\<open>active\<close> index under a boolean.
\<close>

definition getAllActiveSessions :: "db \<Rightarrow> error + session list" where
  "getAllActiveSessions d =
     (case engine d of ValidatesKeys \<Rightarrow> Inl DataError | AcceptsAnyKey \<Rightarrow> Inr [])"

text \<open>
  \<^verbatim>\<open>getCurrentSessionId()\<close> has no handler around the query, so its exception goes to
  the caller.
\<close>

definition getCurrentSessionId :: "db \<Rightarrow> error + nat option" where
  "getCurrentSessionId d =
     (case getAllActiveSessions d of
        Inl e \<Rightarrow> Inl e
      | Inr activeSessions \<Rightarrow>
          Inr (case activeSessions of [] \<Rightarrow> None | s # _ \<Rightarrow> Some (session_id s)))"

subsection \<open>Recording a check-in\<close>

text \<open>\<^verbatim>\<open>getTodayAttendance(studentId)\<close>: the first record of the \<^verbatim>\<open>studentDate\<close> index.\<close>

definition getTodayAttendance :: "db \<Rightarrow> jsdate \<Rightarrow> string \<Rightarrow> attendance_record option" where
  "getTodayAttendance d now sid =
     (case filter (\<lambda>r. studentId r = sid \<and> dateISO r = toISODate now) (attendance d) of
        [] \<Rightarrow> None
      | r # _ \<Rightarrow> Some r)"


record checkin_result =
  res_record :: attendance_record
  res_isRepeat :: bool
  res_student :: student

text \<open>\<^verbatim>\<open>x || 0\<close> on a number that may be missing.\<close>

definition or_zero :: "int option \<Rightarrow> int" where
  "or_zero x = (case x of None \<Rightarrow> 0 | Some v \<Rightarrow> v)"

text \<open>
  \<^verbatim>\<open>recordAttendance(studentId, status = 'present', lateMinutes = 0)\<close>. The two optional
  arguments are \<open>status_arg\<close> and \<open>lateMinutes_arg\<close>. The new record is an object
  literal whose \<^verbatim>\<open>sessionId\<close> is \<^verbatim>\<open>await this.getCurrentSessionId()\<close>: an exception of
  that call leaves \<^verbatim>\<open>recordAttendance\<close> before anything is written.
\<close>

definition recordAttendance ::
  "db \<Rightarrow> jsdate \<Rightarrow> string \<Rightarrow> status \<Rightarrow> int \<Rightarrow> (error + checkin_result) \<times> db" where
  "recordAttendance d now sid status_arg lateMinutes_arg =
     (case getStudent d sid of
        None \<Rightarrow> (Inl StudentNotFound, d)
      | Some stu \<Rightarrow>
          (let cfg = getSettings d;
               (actualStatus, calculatedLateMinutes) =
                  calculateAttendanceStatus now (workStartTime cfg) (lateThreshold cfg)
           in case getTodayAttendance d now sid of
                Some existingRecord \<Rightarrow>
                  (let updated = existingRecord
                         \<lparr>timeISO := toISOString now,
                          status := (if actualStatus = Late then Late
                                     else status existingRecord),
                          lateMinutes := max (lateMinutes existingRecord) calculatedLateMinutes,
                          updatedAt := Some (toISOString now),
                          isRepeat := Some True\<rparr>;
                       (k, updated', d1) = put_attendance d now updated;
                       d2 = logAudit d1 now ''system'' ''UPDATE_ATTENDANCE'' ''attendance''
                              (Some (AttendanceJSON existingRecord))
                              (Some (AttendanceJSON updated'))
                   in (Inr \<lparr>res_record = updated', res_isRepeat = True, res_student = stu\<rparr>,
                       d2))
              | None \<Rightarrow>
                  (case getCurrentSessionId d of
                     Inl e \<Rightarrow> (Inl e, d)
                   | Inr currentSessionId \<Rightarrow>
                  (let attendanceRecord =
                         \<lparr>att_id = None, studentId = sid, dateISO = toISODate now,
                          timeISO = toISOString now, status = actualStatus,
                          lateMinutes = calculatedLateMinutes,
                          sessionId = currentSessionId, isRepeat = Some False,
                          reason = None, markedBy = None, isManual = None,
                          createdAt = None, updatedAt = None\<rparr>;
                       (recordId, stamped, d1) = put_attendance d now attendanceRecord;
                       attendanceRecord' = stamped\<lparr>att_id := Some recordId\<rparr>;
                       (upd, d2) =
                         (if actualStatus = Late \<and> calculatedLateMinutes > 0
                          then updateStudent d1 now sid
                                 (or_zero (lateDays stu) + 1,
                                  or_zero (lateMinutesTotal stu) + calculatedLateMinutes)
                          else (Inr (), d1))
                   in case upd of
                        Inl e \<Rightarrow> (Inl e, d2)
                      | Inr _ \<Rightarrow>
                          (let d3 = logAudit d2 now ''system'' ''CREATE_ATTENDANCE''
                                      ''attendance'' None
                                      (Some (AttendanceJSON attendanceRecord'))
                           in (Inr \<lparr>res_record = attendanceRecord', res_isRepeat = False,
                                     res_student = stu\<rparr>, d3))))))"


subsection \<open>Marking a student absent\<close>

text \<open>\<^verbatim>\<open>markAbsent(studentId, dateISO, sessionId = null, reason = '')\<close>.\<close>

definition markAbsent ::
  "db \<Rightarrow> jsdate \<Rightarrow> string \<Rightarrow> int \<Rightarrow> nat option \<Rightarrow> string \<Rightarrow> (error + attendance_record) \<times> db" where
  "markAbsent d now sid day sess why =
     (case find (\<lambda>r. studentId r = sid \<and> dateISO r = day) (attendance d) of
        Some existing \<Rightarrow> (Inl DuplicateRecordConflict, d)
      | None \<Rightarrow>
          (let absentRecord =
                 \<lparr>att_id = None, studentId = sid, dateISO = day,
                  timeISO = toISOString now, status = Absent, lateMinutes = 0,
                  sessionId = sess, isRepeat = None,
                  reason = Some why, markedBy = Some ''admin'', isManual = Some True,
                  createdAt = None, updatedAt = None\<rparr>;
               (recordId, stamped, d1) = put_attendance d now absentRecord;
               absentRecord' = stamped\<lparr>att_id := Some recordId\<rparr>;
               d2 = logAudit d1 now ''admin'' ''MARK_ABSENT'' ''attendance'' None
                      (Some (AttendanceJSON absentRecord'))
           in (Inr absentRecord', d2)))"

subsection \<open>Daily statistics\<close>






subsection \<open>Well-formed stores\<close>

text \<open>
  Every stored attendance record has a key, keys are unique, and the key generator is past
  every key: what a key-value store with an auto-increment generator maintains.
\<close>

definition store_ok :: "db \<Rightarrow> bool" where
  "store_ok d \<longleftrightarrow>
     distinct (map att_id (attendance d)) \<and>
     list_all (\<lambda>i. case i of None \<Rightarrow> False | Some k \<Rightarrow> k < attendanceKeyGen d)
       (map att_id (attendance d))"

text \<open>At most one attendance record for each pair of student and calendar date.\<close>

definition one_per_day :: "db \<Rightarrow> bool" where
  "one_per_day d \<longleftrightarrow> distinct (map (\<lambda>r. (studentId r, dateISO r)) (attendance d))"

definition emptyDb :: db where
  "emptyDb = \<lparr>students = [], attendance = [], attendanceKeyGen = 1, sessions = [],
              settings = None, audit = [], engine = ValidatesKeys\<rparr>"

subsection \<open>The two outcomes of a check-in, written out\<close>

text \<open>
  The record that a repeat check-in stores in place of \<open>ex\<close>, the record that a first
  check-in inserts, and the student after the late statistics are raised; \<open>cls\<close> is the
  result of \<open>calculateAttendanceStatus\<close>. The lemmas below prove that \<open>recordAttendance\<close>
  produces exactly these.
\<close>

definition mergeRepeat :: "attendance_record \<Rightarrow> jsdate \<Rightarrow> status \<times> int \<Rightarrow> attendance_record" where
  "mergeRepeat ex now cls =
     ex\<lparr>timeISO := toISOString now,
        status := (if fst cls = Late then Late else status ex),
        lateMinutes := max (lateMinutes ex) (snd cls),
        updatedAt := Some (toISOString now),
        isRepeat := Some True,
        createdAt := (case createdAt ex of None \<Rightarrow> Some (toISOString now) | Some c \<Rightarrow> Some c)\<rparr>"

definition newRecord :: "db \<Rightarrow> jsdate \<Rightarrow> string \<Rightarrow> status \<times> int \<Rightarrow> attendance_record" where
  "newRecord d now sid cls =
     \<lparr>att_id = Some (attendanceKeyGen d), studentId = sid, dateISO = toISODate now,
      timeISO = toISOString now, status = fst cls, lateMinutes = snd cls,
      sessionId = (case getCurrentSessionId d of Inl e \<Rightarrow> None | Inr cur \<Rightarrow> cur),
      isRepeat = Some False,
      reason = None, markedBy = None, isManual = None,
      createdAt = Some (toISOString now), updatedAt = Some (toISOString now)\<rparr>"

definition bumpLate :: "student \<Rightarrow> jsdate \<Rightarrow> int \<Rightarrow> student" where
  "bumpLate stu now mins =
     stu\<lparr>lateDays := Some (or_zero (lateDays stu) + 1),
         lateMinutesTotal := Some (or_zero (lateMinutesTotal stu) + mins),
         student_createdAt := (case student_createdAt stu of None \<Rightarrow> Some (toISOString now)
                                                          | Some c \<Rightarrow> Some c),
         student_updatedAt := Some (toISOString now)\<rparr>"

subsection \<open>A concrete school day\<close>

text \<open>
  Three registered students and the default settings (work starts at 07:00, 15 minutes of
  grace). \<open>zoneClock off day h m\<close> is \<open>h:m\<close> local time on the local day \<open>day\<close> in
  a zone with the fixed offset \<open>off\<close>; \<open>clockAt h m\<close> is \<open>h:m\<close> on local day 20000
  in a zone three hours east of UTC.
\<close>

definition mkStudent :: "string \<Rightarrow> string \<Rightarrow> student" where
  "mkStudent sid nm =
     \<lparr>student_id = sid, name = nm, grade = ''1'', className = ''A'', guardianPhone = [],
      lateDays = Some 0, lateMinutesTotal = Some 0,
      student_createdAt = Some 0, student_updatedAt = Some 0\<rparr>"

definition schoolDb :: db where
  "schoolDb = emptyDb\<lparr>students := [mkStudent ''S1'' ''Ahmad'', mkStudent ''S2'' ''Fatima'',
                                   mkStudent ''S3'' ''Omar'']\<rparr>"

definition zoneClock :: "int \<Rightarrow> int \<Rightarrow> int \<Rightarrow> int \<Rightarrow> jsdate" where
  "zoneClock off day h m =
     \<lparr>epochMs = day * msPerDay + h * 3600000 + m * 60000 - off,
      tzOffsetMs = off, tzOffsetAt = (\<lambda>l. off)\<rparr>"

definition clockAt :: "int \<Rightarrow> int \<Rightarrow> jsdate" where
  "clockAt h m = zoneClock 10800000 20000 h m"






text \<open>
  A clock on local day 20000 in a zone five hours west of UTC that puts its clocks forward
  at 02:00 local time, to four hours west of UTC.
\<close>

definition springForwardOffset :: "int \<Rightarrow> int" where
  "springForwardOffset l =
     (if l < 20000 * msPerDay + 2 * 3600000 then - 18000000 else - 14400000)"

definition springForwardClock :: "int \<Rightarrow> int \<Rightarrow> jsdate" where
  "springForwardClock h m =
     (let l = 20000 * msPerDay + h * 3600000 + m * 60000
      in \<lparr>epochMs = l - springForwardOffset l, tzOffsetMs = springForwardOffset l,
          tzOffsetAt = springForwardOffset\<rparr>)"


text \<open>The ledger after \<open>S1\<close> alone has checked in at 07:10.\<close>

definition recordS1 :: attendance_record where
  "recordS1 =
     \<lparr>att_id = Some 1, studentId = ''S1'', dateISO = 20000,
      timeISO = toISOString (clockAt 7 10), status = Present, lateMinutes = 0,
      sessionId = None, isRepeat = Some False, reason = None, markedBy = None,
      isManual = None, createdAt = Some (toISOString (clockAt 7 10)),
      updatedAt = Some (toISOString (clockAt 7 10))\<rparr>"

definition oneCheckInDb :: db where
  "oneCheckInDb = schoolDb\<lparr>attendance := [recordS1], attendanceKeyGen := 2\<rparr>"




section \<open>Properties\<close>

subsection \<open>What one call of \<open>recordAttendance\<close> does\<close>







lemma getCurrentSessionId_cases:
  "getCurrentSessionId d = Inl DataError \<or> getCurrentSessionId d = Inr None"
  by (simp add: getCurrentSessionId_def getAllActiveSessions_def split: engine.splits)


lemma getCurrentSessionId_validating:
  "engine d = ValidatesKeys \<Longrightarrow> getCurrentSessionId d = Inl DataError"
  by (simp add: getCurrentSessionId_def getAllActiveSessions_def)

text \<open>
  A first check-in of the day whose session query throws: the exception leaves
  \<open>recordAttendance\<close> with nothing written.
\<close>

lemma recordAttendance_new_fails:
  assumes "getStudent d sid = Some stu" "getTodayAttendance d now sid = None"
    and "getCurrentSessionId d = Inl e"
  shows "recordAttendance d now sid st lm = (Inl e, d)"
  using assms by (simp add: recordAttendance_def Let_def split: prod.splits)






subsection \<open>Well-formed stores stay well-formed\<close>






lemma mergeRepeat_keeps [simp]:
  "att_id (mergeRepeat ex now cls) = att_id ex"
  "studentId (mergeRepeat ex now cls) = studentId ex"
  "dateISO (mergeRepeat ex now cls) = dateISO ex"
  "sessionId (mergeRepeat ex now cls) = sessionId ex"
  by (simp_all add: mergeRepeat_def)

lemma newRecord_fields [simp]:
  "att_id (newRecord d now sid cls) = Some (attendanceKeyGen d)"
  "studentId (newRecord d now sid cls) = sid"
  "dateISO (newRecord d now sid cls) = toISODate now"
  "status (newRecord d now sid cls) = fst cls"
  "lateMinutes (newRecord d now sid cls) = snd cls"
  by (simp_all add: newRecord_def)






subsection \<open>What a sequence of check-ins keeps\<close>



lemma bumpLate_id [simp]: "student_id (bumpLate stu now mins) = student_id stu"
  by (simp add: bumpLate_def)







subsection \<open>Facts about the number model\<close>


lemma round_half_even_of_int: "round_half_even (of_int k) = k"
  by (simp add: round_half_even_def)

lemma Math_round_of_int: "Math_round (of_int k) = k"
proof -
  have "\<lfloor>(of_int k + 1 / 2 :: rat)\<rfloor> = k"
    by (rule floor_unique) simp_all
  then show ?thesis by (simp add: Math_round_def)
qed

lemma Math_round_0: "Math_round 0 = 0"
  using Math_round_of_int[of 0] by simp

lemma binade_of_nat_le:
  assumes "0 < n" "n < 2 ^ 53"
  shows "binade (of_nat n) \<le> 52"
proof -
  have "floorlog 2 n \<le> 53" using assms by (intro floorlog_leI) auto
  moreover have "(1::rat) \<le> of_nat n" using assms by simp
  ultimately show ?thesis by (simp add: binade_def)
qed

text \<open>An integer below \<open>2^53\<close> is a double: rounding leaves it as it is.\<close>

lemma double_round_of_nat:
  assumes "n < 2 ^ 53"
  shows "double_round (of_nat n) = of_nat n"
proof (cases "n = 0")
  case True
  then show ?thesis by (simp add: double_round_def)
next
  case False
  define e where "e = binade (of_nat n) - 52"
  have e: "e \<le> 0" using binade_of_nat_le[of n] assms False by (simp add: e_def)
  define k where "k = nat (- e)"
  have pw: "(2::rat) powi e = inverse (2 ^ k)"
    using e by (simp add: power_int_def k_def power_one_over field_simps)
  have "of_nat n / 2 powi e = (of_int (int n * 2 ^ k) :: rat)"
    by (simp add: pw field_simps)
  then have "round_half_even (of_nat n / 2 powi e) = int n * 2 ^ k"
    using round_half_even_of_int by metis
  then show ?thesis using False
    by (simp add: double_round_def Let_def e_def[symmetric] pw field_simps)
qed

lemma round_half_even_nonneg: "0 \<le> x \<Longrightarrow> 0 \<le> round_half_even x"
  by (simp add: round_half_even_def Let_def)

lemma double_round_nonpos:
  assumes "q \<le> 0"
  shows "double_round q \<le> 0"
proof (cases "q = 0")
  case True
  then show ?thesis by (simp add: double_round_def)
next
  case False
  with assms have neg: "q < 0" by simp
  have "0 \<le> \<bar>q\<bar> / 2 powi (binade \<bar>q\<bar> - 52)" by simp
  then have m: "0 \<le> round_half_even (\<bar>q\<bar> / 2 powi (binade \<bar>q\<bar> - 52))"
    by (rule round_half_even_nonneg)
  have "(0::rat) \<le> of_int (round_half_even (\<bar>q\<bar> / 2 powi (binade \<bar>q\<bar> - 52)))
                    * 2 powi (binade \<bar>q\<bar> - 52)"
    using m by simp
  then show ?thesis using neg
    by (simp add: double_round_def Let_def mult.assoc)
qed

lemma double_round_of_int:
  assumes "0 \<le> k" "k < 2 ^ 53"
  shows "double_round (of_int k) = of_int k"
proof -
  have "nat k < 2 ^ 53" using assms by (simp add: nat_less_iff)
  from double_round_of_nat[OF this] show ?thesis using assms by simp
qed

lemma js_div_minutes:
  assumes "0 \<le> k" "k < 2 ^ 53"
  shows "js_div (of_int (k * 60000)) (1000 * 60) = of_int k"
  using double_round_of_int[OF assms] by (simp add: js_div_def)


subsection \<open>Late statistics, one call\<close>




text \<open>
  The threshold must not be negative for this: the code accepts a negative threshold, and
  then a check-in before the work start is late with 0 late minutes.
\<close>

lemma negative_threshold_early_checkin:
  "calculateAttendanceStatus (clockAt 6 0) (7, 0) (- 5) = (Late, 0)"
proof -
  have "epochMs (clockAt 6 0) - setHours (clockAt 6 0) 7 0 \<le> 0"
    by (simp add: setHours_def localDate_def clockAt_def zoneClock_def msPerDay_def Let_def)
  then have "js_div (of_int (epochMs (clockAt 6 0) - setHours (clockAt 6 0) 7 0)) (1000 * 60) \<le> 0"
    unfolding js_div_def by (intro double_round_nonpos) (simp add: divide_le_0_iff)
  then have "max 0 (js_div (of_int (epochMs (clockAt 6 0) - setHours (clockAt 6 0) 7 0))
                      (1000 * 60)) = 0"
    by simp
  then show ?thesis
    by (simp add: calculateAttendanceStatus_def Let_def Math_round_0)
qed

text \<open>
  On the day the clocks go forward, a check-in at 03:30 against a work start of 01:00 is 90
  minutes late: the hour from 02:00 to 03:00 does not exist.
\<close>

lemma spring_forward_checkin:
  "calculateAttendanceStatus (springForwardClock 3 30) (1, 0) 15 = (Late, 90)"
  by code_simp

lemma calculateAttendanceStatus_not_absent:
  "fst (calculateAttendanceStatus now w T) \<noteq> Absent"
  by (simp add: calculateAttendanceStatus_def Let_def split: prod.splits)






subsection \<open>Late statistics over a day\<close>





subsection \<open>Status classification\<close>

text \<open>
  Claim C4. \<open>calculateAttendanceStatus\<close> is a function of the check-in time, the work
  start time and the late threshold alone. For a threshold \<open>T \<ge> 0\<close> (with \<open>T + 1\<close> in
  the range of integers that a double holds exactly): a check-in before the work start of its
  day is present with 0 late minutes; a check-in exactly \<open>T\<close> minutes after the work start
  is present (the threshold is exclusive); a check-in \<open>T + 1\<close> minutes after it is late with
  \<open>T + 1\<close> late minutes.
\<close>

theorem calculateAttendanceStatus_thresholds:
  assumes "0 \<le> T" and "T + 1 < 2 ^ 53"
  shows "(epochMs now < setHours now h m \<longrightarrow>
            calculateAttendanceStatus now (h, m) T = (Present, 0)) \<and>
         (epochMs now = setHours now h m + T * 60000 \<longrightarrow>
            calculateAttendanceStatus now (h, m) T = (Present, 0)) \<and>
         (epochMs now = setHours now h m + (T + 1) * 60000 \<longrightarrow>
            calculateAttendanceStatus now (h, m) T = (Late, T + 1))"
proof (intro conjI impI)
  assume early: "epochMs now < setHours now h m"
  have "js_div (of_int (epochMs now - setHours now h m)) (1000 * 60) \<le> 0"
    unfolding js_div_def using early by (intro double_round_nonpos) (simp add: divide_le_0_iff)
  then have "max 0 (js_div (of_int (epochMs now - setHours now h m)) (1000 * 60)) = 0"
    by simp
  then show "calculateAttendanceStatus now (h, m) T = (Present, 0)"
    using assms(1) by (simp add: calculateAttendanceStatus_def Let_def)
next
  assume at: "epochMs now = setHours now h m + T * 60000"
  have "js_div (of_int (epochMs now - setHours now h m)) (1000 * 60) = of_int T"
    using js_div_minutes[of T] assms at by simp
  then show "calculateAttendanceStatus now (h, m) T = (Present, 0)"
    using assms(1) by (simp add: calculateAttendanceStatus_def Let_def)
next
  assume after: "epochMs now = setHours now h m + (T + 1) * 60000"
  have "js_div (of_int (epochMs now - setHours now h m)) (1000 * 60) = of_int (T + 1)"
    using js_div_minutes[of "T + 1"] assms after by simp
  then show "calculateAttendanceStatus now (h, m) T = (Late, T + 1)"
    using assms(1) Math_round_of_int[of "T + 1"]
    by (simp add: calculateAttendanceStatus_def Let_def max_def)
qed

theorem calculateAttendanceStatus_thresholds_witness:
  "(0::int) \<le> 15 \<and> (15::int) + 1 < 2 ^ 53 \<and>
   epochMs (clockAt 6 59) < setHours (clockAt 6 59) 7 0 \<and>
   calculateAttendanceStatus (clockAt 6 59) (7, 0) 15 = (Present, 0) \<and>
   epochMs (clockAt 7 15) = setHours (clockAt 7 15) 7 0 + 15 * 60000 \<and>
   calculateAttendanceStatus (clockAt 7 15) (7, 0) 15 = (Present, 0) \<and>
   epochMs (clockAt 7 16) = setHours (clockAt 7 16) 7 0 + (15 + 1) * 60000 \<and>
   calculateAttendanceStatus (clockAt 7 16) (7, 0) 15 = (Late, 15 + 1)"
proof -
  have a: "(0::int) \<le> 15" and b: "(15::int) + 1 < 2 ^ 53" by simp_all
  have e1: "epochMs (clockAt 6 59) < setHours (clockAt 6 59) 7 0"
    by (simp add: setHours_def localDate_def clockAt_def zoneClock_def msPerDay_def Let_def)
  have e2: "epochMs (clockAt 7 15) = setHours (clockAt 7 15) 7 0 + 15 * 60000"
    by (simp add: setHours_def localDate_def clockAt_def zoneClock_def msPerDay_def Let_def)
  have e3: "epochMs (clockAt 7 16) = setHours (clockAt 7 16) 7 0 + (15 + 1) * 60000"
    by (simp add: setHours_def localDate_def clockAt_def zoneClock_def msPerDay_def Let_def)
  show ?thesis
    using a b e1 e2 e3
      calculateAttendanceStatus_thresholds[OF a b, of "clockAt 6 59" 7 0]
      calculateAttendanceStatus_thresholds[OF a b, of "clockAt 7 15" 7 0]
      calculateAttendanceStatus_thresholds[OF a b, of "clockAt 7 16" 7 0]
    by blast
qed

subsection \<open>The optional arguments of \<open>recordAttendance\<close>\<close>

text \<open>
  Claim C10. The check-in operation accepts a status and a number of late minutes from its
  caller, but nothing it returns or writes depends on them: two calls that differ only in
  these two arguments, from the same state at the same instant, give the same result and
  the same new state. Status and lateness are recomputed from the clock and the settings.
\<close>

theorem recordAttendance_ignores_arguments:
  "recordAttendance d now sid status1 lateMinutes1 =
   recordAttendance d now sid status2 lateMinutes2"
  by (simp add: recordAttendance_def)

subsection \<open>Unknown students\<close>

text \<open>
  Claim C7 says that, for a student id that is not in the directory, both the check-in and
  \<open>markAbsent\<close> fail with \<open>StudentNotFound\<close> and write nothing. The check-in does
  (\<open>recordAttendance_unknown\<close>). \<open>markAbsent\<close> never consults the directory: on the
  empty database, for the unregistered id \<open>S9\<close>, it succeeds and stores an absent record.
\<close>

theorem markAbsent_unknown_student_writes:
  "getStudent emptyDb ''S9'' = None \<and>
   recordAttendance emptyDb (clockAt 7 0) ''S9'' Present 0 = (Inl StudentNotFound, emptyDb) \<and>
   fst (markAbsent emptyDb (clockAt 7 0) ''S9'' 20000 None []) \<noteq> Inl StudentNotFound \<and>
   map studentId (attendance (snd (markAbsent emptyDb (clockAt 7 0) ''S9'' 20000 None [])))
     = [''S9''] \<and>
   map status (attendance (snd (markAbsent emptyDb (clockAt 7 0) ''S9'' 20000 None [])))
     = [Absent]"
  by (simp add: markAbsent_def emptyDb_def getStudent_def put_attendance_def logAudit_def
      recordAttendance_def Let_def)

subsection \<open>Daily statistics\<close>






subsection \<open>Marking a student absent\<close>

lemma find_append_single:
  "find P (xs @ [x]) = (case find P xs of None \<Rightarrow> (if P x then Some x else None) | Some y \<Rightarrow> Some y)"
  by (induction xs) auto

text \<open>
  Claim C8. When no attendance record exists for a student and a date, \<open>markAbsent\<close>
  succeeds and appends a record with status absent and 0 late minutes; any later
  \<open>markAbsent\<close> for the same student and date fails with \<open>DuplicateRecordConflict\<close> and
  leaves the whole database, the stored record included, as it was.
\<close>

theorem markAbsent_then_conflict:
  assumes "find (\<lambda>r. studentId r = sid \<and> dateISO r = day) (attendance d) = None"
  shows "\<exists>rec d1. markAbsent d now sid day sess why = (Inr rec, d1) \<and>
           status rec = Absent \<and> lateMinutes rec = 0 \<and>
           studentId rec = sid \<and> dateISO rec = day \<and>
           attendance d1 = attendance d @ [rec] \<and>
           (\<forall>now2 sess2 why2.
              markAbsent d1 now2 sid day sess2 why2 = (Inl DuplicateRecordConflict, d1))"
  using assms
  by (simp add: markAbsent_def put_attendance_def logAudit_def Let_def find_append_single)

theorem markAbsent_then_conflict_witness:
  "find (\<lambda>r. studentId r = ''S3'' \<and> dateISO r = 20000) (attendance oneCheckInDb) = None \<and>
   (\<exists>rec d1. markAbsent oneCheckInDb (clockAt 9 0) ''S3'' 20000 None ''sick'' = (Inr rec, d1) \<and>
           status rec = Absent \<and> lateMinutes rec = 0 \<and>
           studentId rec = ''S3'' \<and> dateISO rec = 20000 \<and>
           attendance d1 = attendance oneCheckInDb @ [rec] \<and>
           (\<forall>now2 sess2 why2.
              markAbsent d1 now2 ''S3'' 20000 sess2 why2 = (Inl DuplicateRecordConflict, d1)))"
proof -
  have h: "find (\<lambda>r. studentId r = ''S3'' \<and> dateISO r = 20000) (attendance oneCheckInDb) = None"
    by (simp add: oneCheckInDb_def recordS1_def)
  show ?thesis
    using h markAbsent_then_conflict[OF h, of "clockAt 9 0" None "''sick''"] by blast
qed

subsection \<open>Facts about the concrete school day\<close>

lemma schoolDb_ok: "store_ok schoolDb" "one_per_day schoolDb"
  by (simp_all add: store_ok_def one_per_day_def schoolDb_def emptyDb_def)












text \<open>
  On an engine that validates keys the first check-in of a day of a registered student
  ends with the \<open>DataError\<close> of the session query and writes nothing; on an engine that
  does not, it returns a result.
\<close>

lemma first_checkin_validating_engine:
  assumes "engine d = ValidatesKeys" "getStudent d sid \<noteq> None"
    "getTodayAttendance d now sid = None"
  shows "recordAttendance d now sid st lm = (Inl DataError, d)"
proof -
  obtain stu where stu: "getStudent d sid = Some stu" using assms(2) by auto
  show ?thesis
    by (rule recordAttendance_new_fails[OF stu assms(3)
          getCurrentSessionId_validating[OF assms(1)]])
qed


subsection \<open>The merge of a repeat check-in\<close>



subsection \<open>One record for each student and date\<close>




subsection \<open>Late statistics\<close>




subsection \<open>The scenario of the specification\<close>







end
